theory Spec2Isabelle
  imports
    Complex_Main
    "HOL-Library.Char_ord"
    "HOL-Library.List_Lexorder"
    "HOL-Library.Product_Lexorder"
begin

section \<open>The transaction table\<close>

text \<open>
  A row of the cleaned table that \<open>FinancialAnalyzer\<close> works on. Amounts are the exact
  numbers the table holds: arithmetic is carried out in \<open>real\<close>, the idealisation of
  the float64 column, so every equality below is exact where the program's is up to
  rounding. Categories are the text of the \<open>category\<close> column, compared byte by byte.
  The calendar date keeps the year, month and day that \<open>_prepare_data\<close> reads.
\<close>

record timestamp =
  year :: int
  month :: nat
  day :: nat

record transaction =
  date :: timestamp
  category :: string
  amount :: real

text \<open>The derived columns of \<open>_prepare_data\<close>.\<close>

definition is_expense :: "transaction \<Rightarrow> bool" where
  "is_expense t = (amount t < 0)"

definition is_income :: "transaction \<Rightarrow> bool" where
  "is_income t = (amount t > 0)"

text \<open>
  The \<open>month\<close> column is the monthly period of the date (year and month), the
  \<open>year\<close> column is the year. Periods of one frequency are ordered chronologically,
  which is the lexicographic order of the pair.
\<close>

definition month_col :: "transaction \<Rightarrow> int \<times> nat" where
  "month_col t = (year (date t), month (date t))"

definition year_col :: "transaction \<Rightarrow> int" where
  "year_col t = year (date t)"

section \<open>Series and dictionaries\<close>

text \<open>
  A pandas Series indexed by category and a Python dict are both lists of
  (label, value) pairs in their iteration order.
\<close>

type_synonym series = "(string \<times> real) list"

text \<open>
  \<open>rows.groupby(key)\<close>: one group per distinct key, keys in ascending order, each
  group holding the rows of that key in table order. No group is empty.
\<close>

definition groupby :: "(transaction \<Rightarrow> 'k::linorder) \<Rightarrow> transaction list \<Rightarrow> ('k \<times> transaction list) list" where
  "groupby key rows =
     map (\<lambda>k. (k, filter (\<lambda>t. key t = k) rows)) (sort (remdups (map key rows)))"

text \<open>\<open>rows.groupby('category')['amount'].sum()\<close>.\<close>

definition groupby_category_sum :: "transaction list \<Rightarrow> series" where
  "groupby_category_sum rows =
     map (\<lambda>(c, g). (c, sum_list (map amount g))) (groupby category rows)"

text \<open>\<open>abs(series)\<close>, elementwise.\<close>

definition series_abs :: "series \<Rightarrow> series" where
  "series_abs s = map (\<lambda>(c, v). (c, \<bar>v\<bar>)) s"

text \<open>
  \<open>d[k] = v\<close> on a dict, and \<open>s[k] = v\<close> on a Series: an existing label is
  overwritten in place, a new one is appended.
\<close>

definition setitem :: "'k \<Rightarrow> 'v \<Rightarrow> ('k \<times> 'v) list \<Rightarrow> ('k \<times> 'v) list" where
  "setitem k v d =
     (if k \<in> fst ` set d
      then map (\<lambda>(k', v'). if k' = k then (k', v) else (k', v')) d
      else d @ [(k, v)])"

text \<open>\<open>series.drop(k, errors='ignore')\<close>.\<close>

definition drop_label :: "string \<Rightarrow> series \<Rightarrow> series" where
  "drop_label k s = filter (\<lambda>(c, v). c \<noteq> k) s"

text \<open>\<open>series.sum()\<close> and \<open>sum(d.values())\<close>.\<close>

definition series_sum :: "series \<Rightarrow> real" where
  "series_sum s = sum_list (map snd s)"

text \<open>\<open>series.to_dict()\<close>: the items are stored one by one, a repeated label last.\<close>

definition to_dict :: "series \<Rightarrow> (string \<times> real) list" where
  "to_dict s = fold (\<lambda>(k, v) d. setitem k v d) s []"

text \<open>
  A float64 result: a number, NaN or an infinity. Only a division or a mean can
  leave the numbers. \<open>series.mean()\<close> of an empty Series is NaN; of a non-empty
  one, the sum divided by the length. A float64 division by zero does not raise: it
  is NaN for \<open>0 / 0\<close> and an infinity otherwise.
\<close>

datatype pyfloat = Num real | NaN | PosInf | NegInf

definition mean :: "real list \<Rightarrow> pyfloat" where
  "mean xs = (if xs = [] then NaN else Num (sum_list xs / real (length xs)))"

definition float_div :: "real \<Rightarrow> real \<Rightarrow> pyfloat" where
  "float_div a b =
     (if b = 0 then (if a = 0 then NaN else if a > 0 then PosInf else NegInf)
      else Num (a / b))"

fun float_mul :: "pyfloat \<Rightarrow> real \<Rightarrow> pyfloat" where
  "float_mul (Num x) y = Num (x * y)"
| "float_mul NaN y = NaN"
| "float_mul PosInf y = (if y > 0 then PosInf else if y < 0 then NegInf else NaN)"
| "float_mul NegInf y = (if y > 0 then NegInf else if y < 0 then PosInf else NaN)"

section \<open>Configuration\<close>

text \<open>The \<open>spending_categories\<close> lists of \<open>ANALYSIS_CONFIG\<close>.\<close>

definition spending_categories_charity :: "string list" where
  "spending_categories_charity = [''Charity'']"

definition spending_categories_lending :: "string list" where
  "spending_categories_lending = [''Loan, interests'', ''Lending, renting'']"

definition base_currency :: string where
  "base_currency = ''EGP''"

section \<open>The metrics engine\<close>

record simplified =
  charity :: real
  lending :: real
  normal :: real

record raw_totals =
  total_spending_raw :: real
  total_income_raw :: real
  spending_by_category_raw :: "(string \<times> real) list"
  income_by_category_raw :: "(string \<times> real) list"

record metrics =
  spending_by_category :: "(string \<times> real) list"
  income_by_category :: "(string \<times> real) list"
  total_spending :: real
  total_income :: real
  net_balance :: real
  charity_spending :: real
  spending_excluding_charity :: real
  transaction_count :: nat
  avg_transaction :: pyfloat
  simplified_spending :: simplified
  total_lending :: real
  repaid_lending :: real
  outstanding_lending :: real
  excess_repayment :: real
  charity_percentage :: pyfloat
  currency :: string
  raw_totals :: raw_totals

text \<open>
  The loop of \<open>_categorize_spending\<close> over the items of the dict, carrying
  \<open>charity_amount\<close>, \<open>lending_amount\<close> and \<open>normal_amount\<close>.
\<close>

fun categorize_loop :: "(string \<times> real) list \<Rightarrow> real \<times> real \<times> real \<Rightarrow> real \<times> real \<times> real" where
  "categorize_loop [] acc = acc"
| "categorize_loop ((c, a) # rest) (charity_amount, lending_amount, normal_amount) =
     (if c \<in> set spending_categories_charity
      then categorize_loop rest (charity_amount + a, lending_amount, normal_amount)
      else if c \<in> set spending_categories_lending
      then categorize_loop rest (charity_amount, lending_amount + a, normal_amount)
      else categorize_loop rest (charity_amount, lending_amount, normal_amount + a))"

definition categorize_spending :: "(string \<times> real) list \<Rightarrow> simplified" where
  "categorize_spending d =
     (case categorize_loop d (0, 0, 0) of
        (charity_amount, lending_amount, normal_amount) \<Rightarrow>
          \<lparr>charity = charity_amount, lending = lending_amount, normal = normal_amount\<rparr>)"

text \<open>The adjusted spending Series of \<open>_calculate_metrics\<close> (lines 80 to 89).\<close>

definition adjust_spending :: "real \<Rightarrow> series \<Rightarrow> series" where
  "adjust_spending net_loan_spending s =
     (if net_loan_spending > 0
      then setitem ''Loan, interests'' net_loan_spending s
      else drop_label ''Loan, interests'' s)"

definition calculate_metrics :: "transaction list \<Rightarrow> metrics" where
  "calculate_metrics data =
     (let expenses = filter is_expense data;
          spending = series_abs (groupby_category_sum expenses);
          income_data = filter is_income data;
          income = groupby_category_sum income_data;
          loan_expenses =
            \<bar>sum_list (map amount (filter (\<lambda>t. category t = ''Loan, interests'') expenses))\<bar>;
          loan_income =
            sum_list (map amount (filter (\<lambda>t. category t = ''Lending, renting'') income_data));
          net_loan_spending = loan_expenses - loan_income;
          adjusted_spending = adjust_spending net_loan_spending spending;
          adjusted_income = drop_label ''Lending, renting'' income;
          total_spending_adjusted = series_sum adjusted_spending;
          total_income_adjusted = series_sum adjusted_income;
          charity_sp =
            \<bar>sum_list (map amount (filter (\<lambda>t. category t = ''Charity'') expenses))\<bar>
      in \<lparr>spending_by_category = to_dict adjusted_spending,
          income_by_category = to_dict adjusted_income,
          total_spending = total_spending_adjusted,
          total_income = total_income_adjusted,
          net_balance = total_income_adjusted - total_spending_adjusted,
          charity_spending = charity_sp,
          spending_excluding_charity = total_spending_adjusted - charity_sp,
          transaction_count = length data,
          avg_transaction = mean (map amount data),
          simplified_spending = categorize_spending (to_dict adjusted_spending),
          total_lending = loan_expenses,
          repaid_lending = loan_income,
          outstanding_lending = max 0 net_loan_spending,
          excess_repayment = max 0 (- net_loan_spending),
          charity_percentage =
            (if total_spending_adjusted > 0
             then float_mul (float_div charity_sp total_spending_adjusted) 100
             else Num 0),
          currency = base_currency,
          raw_totals =
            \<lparr>total_spending_raw = series_sum spending,
             total_income_raw = series_sum income,
             spending_by_category_raw = to_dict spending,
             income_by_category_raw = to_dict income\<rparr>\<rparr>)"

section \<open>The period partitioner\<close>

definition analyze_all_time :: "transaction list \<Rightarrow> metrics" where
  "analyze_all_time processed_data = calculate_metrics processed_data"

text \<open>
  \<open>analyze_by_period\<close>, with the column to group by as a function of the row. The
  result dict is keyed by the text of the period, which is different for different
  periods; the model keeps the period itself as the key.
\<close>

definition analyze_by_period :: "(transaction \<Rightarrow> 'k::linorder) \<Rightarrow> transaction list \<Rightarrow> ('k \<times> metrics) list" where
  "analyze_by_period period processed_data =
     map (\<lambda>(period_value, period_data). (period_value, calculate_metrics period_data))
       (groupby period processed_data)"

section \<open>The record as a dict, and the lending summary\<close>

text \<open>
  \<open>_calculate_metrics\<close> returns a dict; these are its keys, in the order of the
  dict literal, each with the value it holds. Subscripting with any other key raises
  \<open>KeyError\<close>.
\<close>

datatype pyval =
    PyDict "(string \<times> real) list"
  | PyReal real
  | PyFloat pyfloat
  | PyInt nat
  | PyStr string
  | PySimplified simplified
  | PyRawTotals raw_totals

datatype pyerror = KeyError string

definition metrics_items :: "metrics \<Rightarrow> (string \<times> pyval) list" where
  "metrics_items m =
     [(''spending_by_category'', PyDict (spending_by_category m)),
      (''income_by_category'', PyDict (income_by_category m)),
      (''total_spending'', PyReal (total_spending m)),
      (''total_income'', PyReal (total_income m)),
      (''net_balance'', PyReal (net_balance m)),
      (''charity_spending'', PyReal (charity_spending m)),
      (''spending_excluding_charity'', PyReal (spending_excluding_charity m)),
      (''transaction_count'', PyInt (transaction_count m)),
      (''avg_transaction'', PyFloat (avg_transaction m)),
      (''simplified_spending'', PySimplified (simplified_spending m)),
      (''total_lending'', PyReal (total_lending m)),
      (''repaid_lending'', PyReal (repaid_lending m)),
      (''outstanding_lending'', PyReal (outstanding_lending m)),
      (''excess_repayment'', PyReal (excess_repayment m)),
      (''charity_percentage'', PyFloat (charity_percentage m)),
      (''currency'', PyStr (currency m)),
      (''raw_totals'', PyRawTotals (raw_totals m))]"

definition getitem :: "metrics \<Rightarrow> string \<Rightarrow> pyerror + pyval" where
  "getitem m k =
     (case map_of (metrics_items m) k of None \<Rightarrow> Inl (KeyError k) | Some v \<Rightarrow> Inr v)"

text \<open>
  The class body defines \<open>get_lending_summary\<close> twice. The second definition
  (lines 242 to 255) replaces the first, so it is the method that callers reach.
\<close>

fun lending_by_month ::
  "('k \<times> metrics) list \<Rightarrow> ('k \<times> pyval) list \<Rightarrow> pyerror + ('k \<times> pyval) list" where
  "lending_by_month [] by_month = Inr by_month"
| "lending_by_month ((mo, data) # rest) by_month =
     (case getitem data ''lending_details'' of
        Inl e \<Rightarrow> Inl e
      | Inr v \<Rightarrow> lending_by_month rest (setitem mo v by_month))"

definition get_lending_summary ::
  "transaction list \<Rightarrow> pyerror + pyval \<times> ((int \<times> nat) \<times> pyval) list" where
  "get_lending_summary processed_data =
     (let all_time_data = analyze_all_time processed_data;
          monthly_data = analyze_by_period month_col processed_data
      in case getitem all_time_data ''lending_details'' of
           Inl e \<Rightarrow> Inl e
         | Inr overall \<Rightarrow>
             (case lending_by_month monthly_data [] of
                Inl e \<Rightarrow> Inl e
              | Inr by_month \<Rightarrow> Inr (overall, by_month)))"

text \<open>The first definition (lines 168 to 191), which the second one shadows.\<close>

record lending_fields =
  lf_total_lending :: pyval
  lf_repaid_lending :: pyval
  lf_outstanding_lending :: pyval
  lf_excess_repayment :: pyval

definition lending_fields_of :: "metrics \<Rightarrow> pyerror + lending_fields" where
  "lending_fields_of data =
     (case getitem data ''total_lending'' of Inl e \<Rightarrow> Inl e | Inr a \<Rightarrow>
      case getitem data ''repaid_lending'' of Inl e \<Rightarrow> Inl e | Inr b \<Rightarrow>
      case getitem data ''outstanding_lending'' of Inl e \<Rightarrow> Inl e | Inr c \<Rightarrow>
      case getitem data ''excess_repayment'' of Inl e \<Rightarrow> Inl e | Inr d \<Rightarrow>
        Inr \<lparr>lf_total_lending = a, lf_repaid_lending = b,
             lf_outstanding_lending = c, lf_excess_repayment = d\<rparr>)"

fun lending_by_month_shadowed ::
  "('k \<times> metrics) list \<Rightarrow> ('k \<times> lending_fields) list \<Rightarrow> pyerror + ('k \<times> lending_fields) list" where
  "lending_by_month_shadowed [] by_month = Inr by_month"
| "lending_by_month_shadowed ((mo, data) # rest) by_month =
     (case lending_fields_of data of
        Inl e \<Rightarrow> Inl e
      | Inr v \<Rightarrow> lending_by_month_shadowed rest (setitem mo v by_month))"

definition get_lending_summary_shadowed ::
  "transaction list \<Rightarrow> pyerror + lending_fields \<times> ((int \<times> nat) \<times> lending_fields) list" where
  "get_lending_summary_shadowed processed_data =
     (let all_time_data = analyze_all_time processed_data;
          monthly_data = analyze_by_period month_col processed_data
      in case lending_fields_of all_time_data of
           Inl e \<Rightarrow> Inl e
         | Inr overall \<Rightarrow>
             (case lending_by_month_shadowed monthly_data [] of
                Inl e \<Rightarrow> Inl e
              | Inr by_month \<Rightarrow> Inr (overall, by_month)))"

section \<open>Sample tables\<close>

definition mk_row :: "int \<Rightarrow> nat \<Rightarrow> nat \<Rightarrow> string \<Rightarrow> real \<Rightarrow> transaction" where
  "mk_row y m d c a = \<lparr>date = \<lparr>year = y, month = m, day = d\<rparr>, category = c, amount = a\<rparr>"

definition scenario_a :: "transaction list" where
  "scenario_a =
     [mk_row 2025 3 1 ''Loan, interests'' (- 500),
      mk_row 2025 3 9 ''Lending, renting'' 200]"

definition scenario_b :: "transaction list" where
  "scenario_b =
     [mk_row 2025 3 1 ''Loan, interests'' (- 200),
      mk_row 2025 4 9 ''Lending, renting'' 500]"

definition scenario_c :: "transaction list" where
  "scenario_c =
     [mk_row 2025 1 5 ''Charity'' (- 100),
      mk_row 2025 1 7 ''Food'' (- 400),
      mk_row 2025 2 1 ''Salary'' 1000]"

definition scenario_d :: "transaction list" where
  "scenario_d =
     [mk_row 2024 12 20 ''Salary'' 700,
      mk_row 2025 1 3 ''Salary'' 1000,
      mk_row 2025 1 9 ''Food'' (- 150),
      mk_row 2025 2 1 ''Lending, renting'' 50,
      mk_row 2025 2 14 ''Salary'' 300]"

section \<open>The arithmetic of the amount column\<close>

text \<open>
  pandas keeps an amount column that holds only integers as int64 and any other
  numeric column as float64. The sums, differences, negations and absolute values of
  the engine are those of the column: an int64 result wraps around modulo \<open>2^64\<close>, a
  float64 result is rounded to the nearest double, ties to even. \<open>Exact\<close> is the
  arithmetic of the model above, with no wrap and no rounding.
\<close>

datatype dtype = Exact | Int64 | Float64

text \<open>Two's complement: the integer taken into the range from \<open>-2^63\<close> to \<open>2^63 - 1\<close>.\<close>

definition wrap64 :: "real \<Rightarrow> real" where
  "wrap64 x = of_int ((\<lfloor>x\<rfloor> + 2 ^ 63) mod 2 ^ 64 - 2 ^ 63)"

text \<open>
  The nearest double of a real number, below the overflow threshold.
  \<open>bit_length n\<close> is the number of binary digits of \<open>n\<close>, and \<open>exponent x\<close> the
  integer \<open>e\<close> with \<open>2^e \<le> |x| < 2^(e+1)\<close>. A double has 53 significant bits, so
  its unit in the last place is \<open>2^(e-52)\<close>, and never finer than \<open>2^(-1074)\<close>.
\<close>

fun bit_length :: "nat \<Rightarrow> nat" where
  "bit_length n = (if n = 0 then 0 else Suc (bit_length (n div 2)))"

declare bit_length.simps [simp del]

definition exponent :: "real \<Rightarrow> int" where
  "exponent x =
     (if \<bar>x\<bar> \<ge> 1 then int (bit_length (nat \<lfloor>\<bar>x\<bar>\<rfloor>)) - 1
      else - int (bit_length (nat (\<lceil>1 / \<bar>x\<bar>\<rceil> - 1))))"

definition pow2 :: "int \<Rightarrow> real" where
  "pow2 e = (if e \<ge> 0 then 2 ^ nat e else 1 / 2 ^ nat (- e))"

definition ulp :: "real \<Rightarrow> real" where
  "ulp x = pow2 (max (exponent x) (- 1022) - 52)"

definition round_half_even :: "real \<Rightarrow> int" where
  "round_half_even y =
     (let q = \<lfloor>y\<rfloor>; r = y - of_int q
      in if r < 1 / 2 then q else if r > 1 / 2 then q + 1
         else if even q then q else q + 1)"

definition f64 :: "real \<Rightarrow> real" where
  "f64 x = (if x = 0 then 0 else sgn x * of_int (round_half_even (\<bar>x\<bar> / ulp x)) * ulp x)"

text \<open>An operation of numpy on values of the column: the exact result, wrapped or rounded.\<close>

definition rnd :: "dtype \<Rightarrow> real \<Rightarrow> real" where
  "rnd dt x = (case dt of Exact \<Rightarrow> x | Int64 \<Rightarrow> wrap64 x | Float64 \<Rightarrow> f64 x)"

definition add_in :: "dtype \<Rightarrow> real \<Rightarrow> real \<Rightarrow> real" where
  "add_in dt a b = rnd dt (a + b)"

definition sub_in :: "dtype \<Rightarrow> real \<Rightarrow> real \<Rightarrow> real" where
  "sub_in dt a b = rnd dt (a - b)"

definition neg_in :: "dtype \<Rightarrow> real \<Rightarrow> real" where
  "neg_in dt a = rnd dt (- a)"

definition abs_in :: "dtype \<Rightarrow> real \<Rightarrow> real" where
  "abs_in dt a = rnd dt \<bar>a\<bar>"

text \<open>
  \<open>.sum()\<close> of a column or of a group, adding from left to right and starting from 0.
  In exact and in int64 arithmetic the order of the additions makes no difference. In
  float64 this is the order numpy follows on fewer than eight values, and the sum of a
  group of one row is that row; longer float64 columns are added in blocks. The float64
  engine is therefore only evaluated on tables of a few groups of one row each.
\<close>

definition sum_in :: "dtype \<Rightarrow> real list \<Rightarrow> real" where
  "sum_in dt xs = foldl (add_in dt) 0 xs"

text \<open>
  \<open>to_dict()\<close> hands the values over as Python numbers: a float keeps the double
  arithmetic, an int is unbounded. The loop of \<open>_categorize_spending\<close> and the
  built-in \<open>sum\<close> add with this arithmetic.
\<close>

definition py_add :: "dtype \<Rightarrow> real \<Rightarrow> real \<Rightarrow> real" where
  "py_add dt a b = (case dt of Float64 \<Rightarrow> f64 (a + b) | _ \<Rightarrow> a + b)"

definition py_sum :: "dtype \<Rightarrow> real list \<Rightarrow> real" where
  "py_sum dt xs = foldl (py_add dt) 0 xs"

section \<open>The engine in the arithmetic of the column\<close>

text \<open>
  \<open>_calculate_metrics\<close> once more, line by line, with every sum, difference, negation
  and absolute value taken in the arithmetic of the amount column. The record holds the
  keys of the returned dict whose values are such sums and differences; the count of
  rows, the mean, the percentage and the currency are left to the model above.
\<close>

definition groupby_category_sum_in :: "dtype \<Rightarrow> transaction list \<Rightarrow> series" where
  "groupby_category_sum_in dt rows =
     map (\<lambda>(c, g). (c, sum_in dt (map amount g))) (groupby category rows)"

definition series_abs_in :: "dtype \<Rightarrow> series \<Rightarrow> series" where
  "series_abs_in dt s = map (\<lambda>(c, v). (c, abs_in dt v)) s"

definition series_sum_in :: "dtype \<Rightarrow> series \<Rightarrow> real" where
  "series_sum_in dt s = sum_in dt (map snd s)"

record metrics_in =
  spending_by_category_in :: "(string \<times> real) list"
  income_by_category_in :: "(string \<times> real) list"
  total_spending_in :: real
  total_income_in :: real
  net_balance_in :: real
  charity_spending_in :: real
  spending_excluding_charity_in :: real
  simplified_spending_in :: simplified
  total_lending_in :: real
  repaid_lending_in :: real
  outstanding_lending_in :: real
  excess_repayment_in :: real
  raw_totals_in :: raw_totals

fun categorize_loop_in ::
  "dtype \<Rightarrow> (string \<times> real) list \<Rightarrow> real \<times> real \<times> real \<Rightarrow> real \<times> real \<times> real" where
  "categorize_loop_in dt [] acc = acc"
| "categorize_loop_in dt ((c, a) # rest) (charity_amount, lending_amount, normal_amount) =
     (if c \<in> set spending_categories_charity
      then categorize_loop_in dt rest (py_add dt charity_amount a, lending_amount, normal_amount)
      else if c \<in> set spending_categories_lending
      then categorize_loop_in dt rest (charity_amount, py_add dt lending_amount a, normal_amount)
      else categorize_loop_in dt rest (charity_amount, lending_amount, py_add dt normal_amount a))"

definition categorize_spending_in :: "dtype \<Rightarrow> (string \<times> real) list \<Rightarrow> simplified" where
  "categorize_spending_in dt d =
     (case categorize_loop_in dt d (0, 0, 0) of
        (charity_amount, lending_amount, normal_amount) \<Rightarrow>
          \<lparr>charity = charity_amount, lending = lending_amount, normal = normal_amount\<rparr>)"

definition calculate_metrics_in :: "dtype \<Rightarrow> transaction list \<Rightarrow> metrics_in" where
  "calculate_metrics_in dt data =
     (let expenses = filter is_expense data;
          spending = series_abs_in dt (groupby_category_sum_in dt expenses);
          income_data = filter is_income data;
          income = groupby_category_sum_in dt income_data;
          loan_expenses =
            abs_in dt (sum_in dt
              (map amount (filter (\<lambda>t. category t = ''Loan, interests'') expenses)));
          loan_income =
            sum_in dt
              (map amount (filter (\<lambda>t. category t = ''Lending, renting'') income_data));
          net_loan_spending = sub_in dt loan_expenses loan_income;
          adjusted_spending = adjust_spending net_loan_spending spending;
          adjusted_income = drop_label ''Lending, renting'' income;
          total_spending_adjusted = series_sum_in dt adjusted_spending;
          total_income_adjusted = series_sum_in dt adjusted_income;
          charity_sp =
            abs_in dt (sum_in dt
              (map amount (filter (\<lambda>t. category t = ''Charity'') expenses)))
      in \<lparr>spending_by_category_in = to_dict adjusted_spending,
          income_by_category_in = to_dict adjusted_income,
          total_spending_in = total_spending_adjusted,
          total_income_in = total_income_adjusted,
          net_balance_in = sub_in dt total_income_adjusted total_spending_adjusted,
          charity_spending_in = charity_sp,
          spending_excluding_charity_in = sub_in dt total_spending_adjusted charity_sp,
          simplified_spending_in = categorize_spending_in dt (to_dict adjusted_spending),
          total_lending_in = loan_expenses,
          repaid_lending_in = loan_income,
          outstanding_lending_in = max 0 net_loan_spending,
          excess_repayment_in = max 0 (neg_in dt net_loan_spending),
          raw_totals_in =
            \<lparr>total_spending_raw = series_sum_in dt spending,
             total_income_raw = series_sum_in dt income,
             spending_by_category_raw = to_dict spending,
             income_by_category_raw = to_dict income\<rparr>\<rparr>)"

definition analyze_by_period_in ::
  "dtype \<Rightarrow> (transaction \<Rightarrow> 'k::linorder) \<Rightarrow> transaction list \<Rightarrow> ('k \<times> metrics_in) list" where
  "analyze_by_period_in dt period processed_data =
     map (\<lambda>(period_value, period_data). (period_value, calculate_metrics_in dt period_data))
       (groupby period processed_data)"

section \<open>Sample tables in float64 and int64\<close>

text \<open>
  Three expense rows of 0.1, 0.2 and 0.3, as the doubles that a float64 column stores;
  three income rows of 0.2 and 0.3 in February and 0.1 in March; and two expense rows of
  \<open>-2^62\<close> in an int64 column.
\<close>

definition float_split :: "transaction list" where
  "float_split =
     [mk_row 2025 1 5 ''Charity'' (f64 (- 0.1)),
      mk_row 2025 1 7 ''Food'' (f64 (- 0.2)),
      mk_row 2025 1 9 ''Zoo'' (f64 (- 0.3))]"

definition float_february :: "transaction list" where
  "float_february =
     [mk_row 2025 2 3 ''Bonus'' (f64 0.2),
      mk_row 2025 2 20 ''Salary'' (f64 0.3)]"

definition float_march :: "transaction list" where
  "float_march = [mk_row 2025 3 7 ''Allowance'' (f64 0.1)]"

definition float_months :: "transaction list" where
  "float_months = float_february @ float_march"

definition int_overflow :: "transaction list" where
  "int_overflow =
     [mk_row 2025 1 5 ''Food'' (- (2 ^ 62)),
      mk_row 2025 1 7 ''Food'' (- (2 ^ 62))]"

section \<open>Series and dict lemmas\<close>

lemma fst_groupby: "map fst (groupby key rows) = sort (remdups (map key rows))"
  by (simp add: groupby_def comp_def)

lemma groupby_category_sum_eq:
  "groupby_category_sum rows =
     map (\<lambda>c. (c, sum_list (map amount (filter (\<lambda>t. category t = c) rows))))
       (sort (remdups (map category rows)))"
  by (simp add: groupby_category_sum_def groupby_def comp_def)

lemma fst_groupby_category_sum:
  "map fst (groupby_category_sum rows) = sort (remdups (map category rows))"
  by (simp add: groupby_category_sum_eq comp_def)

lemma distinct_groupby_category_sum: "distinct (map fst (groupby_category_sum rows))"
  by (simp add: fst_groupby_category_sum)

lemma map_of_groupby_category_sum:
  "map_of (groupby_category_sum rows) c =
     (if c \<in> category ` set rows
      then Some (sum_list (map amount (filter (\<lambda>t. category t = c) rows)))
      else None)"
  by (simp add: groupby_category_sum_eq map_of_map_restrict restrict_map_def)

lemma fst_series_abs: "map fst (series_abs s) = map fst s"
  by (induction s) (auto simp: series_abs_def)

lemma map_of_series_abs: "map_of (series_abs s) c = map_option abs (map_of s c)"
  by (induction s) (auto simp: series_abs_def)

lemma fst_setitem:
  "map fst (setitem k v d) = (if k \<in> fst ` set d then map fst d else map fst d @ [k])"
  by (auto simp: setitem_def comp_def split_def)

lemma distinct_setitem: "distinct (map fst d) \<Longrightarrow> distinct (map fst (setitem k v d))"
  by (auto simp: fst_setitem)

lemma map_of_overwrite:
  "map_of (map (\<lambda>(k', v'). if k' = k then (k', v) else (k', v')) d) c =
     (if c = k then (if k \<in> fst ` set d then Some v else None) else map_of d c)"
proof (induction d)
  case Nil
  then show ?case by simp
next
  case (Cons x d)
  obtain k0 v0 where x: "x = (k0, v0)" by (cases x)
  show ?case using Cons.IH by (cases "c = k") (auto simp: x)
qed

lemma map_of_setitem: "map_of (setitem k v d) c = (if c = k then Some v else map_of d c)"
proof (cases "k \<in> fst ` set d")
  case True
  then show ?thesis by (simp add: setitem_def map_of_overwrite)
next
  case False
  then have "map_of d k = None" by (simp add: map_of_eq_None_iff)
  with False show ?thesis by (simp add: setitem_def map_add_def split: option.splits)
qed

lemma fst_drop_label: "map fst (drop_label k s) = filter (\<lambda>c. c \<noteq> k) (map fst s)"
  by (induction s) (auto simp: drop_label_def)

lemma distinct_drop_label: "distinct (map fst s) \<Longrightarrow> distinct (map fst (drop_label k s))"
  by (simp add: fst_drop_label)

lemma map_of_drop_label: "map_of (drop_label k s) c = (if c = k then None else map_of s c)"
  by (induction s) (auto simp: drop_label_def)

lemma fold_setitem_distinct:
  "distinct (map fst (acc @ s)) \<Longrightarrow> fold (\<lambda>(k, v) d. setitem k v d) s acc = acc @ s"
proof (induction s arbitrary: acc)
  case Nil
  then show ?case by simp
next
  case (Cons x s)
  obtain k v where x: "x = (k, v)" by (cases x)
  from Cons.prems have notin: "k \<notin> fst ` set acc" by (auto simp: x)
  then have step: "setitem k v acc = acc @ [(k, v)]" by (simp add: setitem_def)
  from Cons.prems have "distinct (map fst ((acc @ [(k, v)]) @ s))" by (simp add: x)
  from Cons.IH [OF this] show ?case by (simp add: x step)
qed

lemma to_dict_distinct: "distinct (map fst s) \<Longrightarrow> to_dict s = s"
  using fold_setitem_distinct [of "[]" s] by (simp add: to_dict_def)

section \<open>Field equations of the engine\<close>

lemma income_by_category_eq:
  "income_by_category (calculate_metrics data) =
     drop_label ''Lending, renting'' (groupby_category_sum (filter is_income data))"
  by (simp add: calculate_metrics_def Let_def to_dict_distinct distinct_drop_label
      distinct_groupby_category_sum)

lemma total_income_eq:
  "total_income (calculate_metrics data) =
     series_sum (drop_label ''Lending, renting'' (groupby_category_sum (filter is_income data)))"
  by (simp add: calculate_metrics_def Let_def)

lemma getitem_lending_details:
  "getitem m ''lending_details'' = Inl (KeyError ''lending_details'')"
  by (simp add: getitem_def metrics_items_def)

section \<open>Repayment exclusion\<close>

text \<open>
  Claim C3. For every transaction set, the repayment category \<open>Lending, renting\<close>
  is not a key of the returned \<open>income_by_category\<close> dict, whatever the sign of the
  net loan position: the drop at line 92 is outside the branch on the net.
\<close>

theorem repayment_excluded:
  "''Lending, renting'' \<notin> fst ` set (income_by_category (calculate_metrics data))"
proof -
  have "''Lending, renting'' \<notin> set (map fst (income_by_category (calculate_metrics data)))"
    unfolding income_by_category_eq fst_drop_label by simp
  then show ?thesis by simp
qed

section \<open>The empty table\<close>

text \<open>
  Claim C6. On the empty transaction set the engine returns a record whose totals are 0
  and whose category dicts are empty, but \<open>avg_transaction\<close> is the mean of an empty
  column, which is NaN and not 0: line 118 has no guard for the empty table, unlike
  the percentage at line 126.
\<close>

theorem empty_metrics:
  "calculate_metrics [] =
     \<lparr>spending_by_category = [], income_by_category = [], total_spending = 0,
      total_income = 0, net_balance = 0, charity_spending = 0,
      spending_excluding_charity = 0, transaction_count = 0,
      avg_transaction = NaN,
      simplified_spending = \<lparr>charity = 0, lending = 0, normal = 0\<rparr>,
      total_lending = 0, repaid_lending = 0, outstanding_lending = 0,
      excess_repayment = 0, charity_percentage = Num 0, currency = ''EGP'',
      raw_totals =
        \<lparr>total_spending_raw = 0, total_income_raw = 0,
         spending_by_category_raw = [], income_by_category_raw = []\<rparr>\<rparr>"
  by (simp add: calculate_metrics_def Let_def groupby_category_sum_def groupby_def
      series_abs_def adjust_spending_def drop_label_def series_sum_def to_dict_def
      mean_def categorize_spending_def base_currency_def)

section \<open>The lending summary\<close>

text \<open>
  Claim C9. The lending summary that callers reach (the second definition of
  \<open>get_lending_summary\<close>) subscripts the all-time record with \<open>lending_details\<close>,
  a key that \<open>_calculate_metrics\<close> never stores, so on every table it raises
  \<open>KeyError\<close> before any field is returned.
\<close>

theorem lending_summary_raises:
  "get_lending_summary processed_data = Inl (KeyError ''lending_details'')"
  by (simp add: get_lending_summary_def Let_def getitem_lending_details)

text \<open>
  The shadowed first definition reads the four keys that the record does hold, and
  returns them for the all-time record and for every month.
\<close>

lemma lending_fields_of_eq:
  "lending_fields_of m =
     Inr \<lparr>lf_total_lending = PyReal (total_lending m),
          lf_repaid_lending = PyReal (repaid_lending m),
          lf_outstanding_lending = PyReal (outstanding_lending m),
          lf_excess_repayment = PyReal (excess_repayment m)\<rparr>"
  by (simp add: lending_fields_of_def getitem_def metrics_items_def)

lemma lending_by_month_shadowed_returns:
  "\<exists>by_month. lending_by_month_shadowed monthly_data acc = Inr by_month"
proof (induction monthly_data arbitrary: acc)
  case Nil
  then show ?case by simp
next
  case (Cons x monthly_data)
  obtain mo data where x: "x = (mo, data)" by (cases x)
  show ?case using Cons.IH by (simp add: x lending_fields_of_eq)
qed

lemma get_lending_summary_shadowed_returns:
  "\<exists>by_month. get_lending_summary_shadowed processed_data =
     Inr (\<lparr>lf_total_lending = PyReal (total_lending (analyze_all_time processed_data)),
           lf_repaid_lending = PyReal (repaid_lending (analyze_all_time processed_data)),
           lf_outstanding_lending =
             PyReal (outstanding_lending (analyze_all_time processed_data)),
           lf_excess_repayment = PyReal (excess_repayment (analyze_all_time processed_data))\<rparr>,
          by_month)"
proof -
  obtain by_month where
    "lending_by_month_shadowed (analyze_by_period month_col processed_data) [] = Inr by_month"
    using lending_by_month_shadowed_returns by blast
  then show ?thesis
    by (simp add: get_lending_summary_shadowed_def Let_def lending_fields_of_eq)
qed

section \<open>Sums over groups\<close>

lemma sum_over_keys:
  fixes g :: "'a \<Rightarrow> real"
  assumes "finite K"
  shows "(\<Sum>k\<in>K. sum_list (map g (filter (\<lambda>t. key t = k) rows))) =
         sum_list (map g (filter (\<lambda>t. key t \<in> K) rows))"
proof (induction rows)
  case Nil
  then show ?case by simp
next
  case (Cons t rows)
  have "(\<Sum>k\<in>K. sum_list (map g (filter (\<lambda>t. key t = k) (t # rows)))) =
        (\<Sum>k\<in>K. (if k = key t then g t else 0) + sum_list (map g (filter (\<lambda>t. key t = k) rows)))"
    by (rule sum.cong) auto
  also have "\<dots> = (\<Sum>k\<in>K. if k = key t then g t else 0) +
        (\<Sum>k\<in>K. sum_list (map g (filter (\<lambda>t. key t = k) rows)))"
    by (rule sum.distrib)
  also have "(\<Sum>k\<in>K. if k = key t then g t else 0) = (if key t \<in> K then g t else 0)"
    using assms by (simp add: sum.delta)
  finally show ?case using Cons.IH by simp
qed

lemma sum_list_groups:
  fixes g :: "'a \<Rightarrow> real" and key :: "'a \<Rightarrow> 'k::linorder"
  shows "sum_list (map (\<lambda>k. sum_list (map g (filter (\<lambda>t. key t = k) rows)))
           (filter P (sort (remdups (map key rows))))) =
         sum_list (map g (filter (\<lambda>t. P (key t)) rows))"
proof -
  let ?ks = "filter P (sort (remdups (map key rows)))"
  have d: "distinct ?ks" by simp
  have s: "set ?ks = {k \<in> key ` set rows. P k}" by auto
  have "sum_list (map (\<lambda>k. sum_list (map g (filter (\<lambda>t. key t = k) rows))) ?ks) =
        (\<Sum>k\<in>set ?ks. sum_list (map g (filter (\<lambda>t. key t = k) rows)))"
    using d by (rule sum_list_distinct_conv_sum_set)
  also have "\<dots> = sum_list (map g (filter (\<lambda>t. key t \<in> set ?ks) rows))"
    by (rule sum_over_keys) simp
  also have "filter (\<lambda>t. key t \<in> set ?ks) rows = filter (\<lambda>t. P (key t)) rows"
    by (rule filter_cong) (auto simp: s)
  finally show ?thesis .
qed

lemma drop_label_keys:
  "drop_label k (map (\<lambda>c. (c, f c)) ks) = map (\<lambda>c. (c, f c)) (filter (\<lambda>c. c \<noteq> k) ks)"
  by (induction ks) (auto simp: drop_label_def)

lemma total_income_rows:
  "total_income (calculate_metrics data) =
     sum_list (map amount
       (filter (\<lambda>t. is_income t \<and> category t \<noteq> ''Lending, renting'') data))"
proof -
  let ?inc = "filter is_income data"
  have "total_income (calculate_metrics data) =
        sum_list (map (\<lambda>c. sum_list (map amount (filter (\<lambda>t. category t = c) ?inc)))
          (filter (\<lambda>c. c \<noteq> ''Lending, renting'') (sort (remdups (map category ?inc)))))"
    by (simp add: total_income_eq groupby_category_sum_eq drop_label_keys series_sum_def comp_def)
  also have "\<dots> = sum_list (map amount (filter (\<lambda>t. category t \<noteq> ''Lending, renting'') ?inc))"
    by (rule sum_list_groups)
  finally show ?thesis by (simp add: conj_commute)
qed

lemma sum_list_nonpos_abs:
  fixes xs :: "real list"
  shows "\<forall>x\<in>set xs. x \<le> 0 \<Longrightarrow>
         sum_list xs \<le> 0 \<and> - sum_list xs = sum_list (map abs xs)"
  by (induction xs) auto

lemma abs_sum_list_nonpos:
  fixes xs :: "real list"
  assumes "\<forall>x\<in>set xs. x \<le> 0"
  shows "\<bar>sum_list xs\<bar> = sum_list (map abs xs)"
  using sum_list_nonpos_abs [OF assms] by simp

lemma abs_sum_expenses:
  "\<bar>sum_list (map amount (filter (\<lambda>t. category t = c) (filter is_expense data)))\<bar> =
     sum_list (map (\<lambda>t. \<bar>amount t\<bar>) (filter (\<lambda>t. amount t < 0 \<and> category t = c) data))"
proof -
  have "\<bar>sum_list (map amount (filter (\<lambda>t. category t = c) (filter is_expense data)))\<bar> =
        sum_list (map abs (map amount (filter (\<lambda>t. category t = c) (filter is_expense data))))"
    by (rule abs_sum_list_nonpos) (auto simp: is_expense_def)
  then show ?thesis by (simp add: comp_def is_expense_def conj_commute)
qed

lemma total_lending_rows:
  "total_lending (calculate_metrics data) =
     sum_list (map (\<lambda>t. \<bar>amount t\<bar>)
       (filter (\<lambda>t. amount t < 0 \<and> category t = ''Loan, interests'') data))"
  using abs_sum_expenses [of "''Loan, interests''" data]
  by (simp add: calculate_metrics_def Let_def)

lemma repaid_lending_rows:
  "repaid_lending (calculate_metrics data) =
     sum_list (map amount
       (filter (\<lambda>t. amount t > 0 \<and> category t = ''Lending, renting'') data))"
  by (simp add: calculate_metrics_def Let_def is_income_def conj_commute)



section \<open>Lending netting\<close>


section \<open>The adjusted spending map\<close>

lemma distinct_adjust_spending:
  "distinct (map fst s) \<Longrightarrow> distinct (map fst (adjust_spending n s))"
  by (simp add: adjust_spending_def distinct_setitem distinct_drop_label)

lemma map_of_adjust_spending:
  "map_of (adjust_spending n s) c =
     (if c = ''Loan, interests'' then (if n > 0 then Some n else None) else map_of s c)"
  by (simp add: adjust_spending_def map_of_setitem map_of_drop_label)

lemma distinct_spending_raw:
  "distinct (map fst (series_abs (groupby_category_sum rows)))"
  by (simp add: fst_series_abs distinct_groupby_category_sum)

lemma spending_by_category_eq:
  "spending_by_category (calculate_metrics data) =
     adjust_spending
       (total_lending (calculate_metrics data) - repaid_lending (calculate_metrics data))
       (series_abs (groupby_category_sum (filter is_expense data)))"
  by (simp add: calculate_metrics_def Let_def to_dict_distinct distinct_adjust_spending
      distinct_spending_raw)

lemma total_spending_eq:
  "total_spending (calculate_metrics data) =
     series_sum (adjust_spending
       (total_lending (calculate_metrics data) - repaid_lending (calculate_metrics data))
       (series_abs (groupby_category_sum (filter is_expense data))))"
  by (simp add: calculate_metrics_def Let_def)

lemma spending_by_category_raw_eq:
  "spending_by_category_raw (raw_totals (calculate_metrics data)) =
     series_abs (groupby_category_sum (filter is_expense data))"
  by (simp add: calculate_metrics_def Let_def to_dict_distinct distinct_spending_raw)

lemma map_of_spending_raw:
  "map_of (series_abs (groupby_category_sum (filter is_expense data))) c =
     (if c \<in> category ` {t \<in> set data. amount t < 0}
      then Some (sum_list (map (\<lambda>t. \<bar>amount t\<bar>)
             (filter (\<lambda>t. amount t < 0 \<and> category t = c) data)))
      else None)"
proof -
  have img: "category ` set (filter is_expense data) = category ` {t \<in> set data. amount t < 0}"
    by (auto simp: is_expense_def)
  have "map_of (series_abs (groupby_category_sum (filter is_expense data))) c =
        (if c \<in> category ` set (filter is_expense data)
         then Some \<bar>sum_list (map amount
                (filter (\<lambda>t. category t = c) (filter is_expense data)))\<bar>
         else None)"
    unfolding map_of_series_abs map_of_groupby_category_sum by simp
  then show ?thesis
    unfolding img abs_sum_expenses .
qed

text \<open>
  Claim C2. With \<open>net\<close> the loan expense minus the repayment income: when
  \<open>net > 0\<close> the loan category of the adjusted spending dict holds \<open>net\<close>; when
  \<open>net \<le> 0\<close> the loan category is not a key of it; every other category has the
  entry of the raw spending dict, which is the summed magnitude of its expense rows.
  The keys of the dict are distinct, so a lookup reads its only entry.
\<close>

theorem loan_adjustment:
  "let L = sum_list (map (\<lambda>t. \<bar>amount t\<bar>)
             (filter (\<lambda>t. amount t < 0 \<and> category t = ''Loan, interests'') data));
       R = sum_list (map amount
             (filter (\<lambda>t. amount t > 0 \<and> category t = ''Lending, renting'') data));
       net = L - R;
       m = calculate_metrics data
   in distinct (map fst (spending_by_category m)) \<and>
      (net > 0 \<longrightarrow> map_of (spending_by_category m) ''Loan, interests'' = Some net) \<and>
      (net \<le> 0 \<longrightarrow> ''Loan, interests'' \<notin> fst ` set (spending_by_category m)) \<and>
      (\<forall>c. c \<noteq> ''Loan, interests'' \<longrightarrow>
         map_of (spending_by_category m) c =
           map_of (spending_by_category_raw (raw_totals m)) c \<and>
         map_of (spending_by_category_raw (raw_totals m)) c =
           (if c \<in> category ` {t \<in> set data. amount t < 0}
            then Some (sum_list (map (\<lambda>t. \<bar>amount t\<bar>)
                   (filter (\<lambda>t. amount t < 0 \<and> category t = c) data)))
            else None))"
proof -
  let ?m = "calculate_metrics data"
  let ?net = "total_lending ?m - repaid_lending ?m"
  let ?raw = "series_abs (groupby_category_sum (filter is_expense data))"
  have d: "distinct (map fst (spending_by_category ?m))"
    by (simp add: spending_by_category_eq distinct_adjust_spending distinct_spending_raw)
  have pos: "?net > 0 \<Longrightarrow> map_of (spending_by_category ?m) ''Loan, interests'' = Some ?net"
    by (simp add: spending_by_category_eq map_of_adjust_spending)
  have "\<not> ?net > 0 \<Longrightarrow> map_of (spending_by_category ?m) ''Loan, interests'' = None"
    by (simp add: spending_by_category_eq map_of_adjust_spending)
  then have neg: "?net \<le> 0 \<Longrightarrow> ''Loan, interests'' \<notin> fst ` set (spending_by_category ?m)"
    by (simp add: map_of_eq_None_iff)
  have other: "c \<noteq> ''Loan, interests'' \<Longrightarrow>
      map_of (spending_by_category ?m) c = map_of (spending_by_category_raw (raw_totals ?m)) c" for c
    by (simp add: spending_by_category_eq spending_by_category_raw_eq map_of_adjust_spending)
  have raw: "map_of (spending_by_category_raw (raw_totals ?m)) c =
           (if c \<in> category ` {t \<in> set data. amount t < 0}
            then Some (sum_list (map (\<lambda>t. \<bar>amount t\<bar>)
                   (filter (\<lambda>t. amount t < 0 \<and> category t = c) data)))
            else None)" for c
    unfolding spending_by_category_raw_eq by (rule map_of_spending_raw)
  show ?thesis
    unfolding Let_def total_lending_rows [symmetric] repaid_lending_rows [symmetric]
    using d pos neg other raw by blast
qed

section \<open>Reconciliation of the totals\<close>


section \<open>The simplified three-way split\<close>

lemma categorize_loop_sums:
  "categorize_loop d (c, l, n) =
     (c + sum_list (map snd (filter (\<lambda>(k, v). k = ''Charity'') d)),
      l + sum_list (map snd
            (filter (\<lambda>(k, v). k = ''Loan, interests'' \<or> k = ''Lending, renting'') d)),
      n + sum_list (map snd
            (filter (\<lambda>(k, v). k \<noteq> ''Charity'' \<and> k \<noteq> ''Loan, interests'' \<and>
               k \<noteq> ''Lending, renting'') d)))"
proof (induction d arbitrary: c l n)
  case Nil
  then show ?case by simp
next
  case (Cons x d)
  obtain k v where x: "x = (k, v)" by (cases x)
  show ?case
    by (simp add: x Cons.IH spending_categories_charity_def spending_categories_lending_def)
qed

lemma sum_list_three_way:
  fixes d :: "(string \<times> real) list"
  shows "sum_list (map snd (filter (\<lambda>(k, v). k = ''Charity'') d)) +
     sum_list (map snd
       (filter (\<lambda>(k, v). k = ''Loan, interests'' \<or> k = ''Lending, renting'') d)) +
     sum_list (map snd
       (filter (\<lambda>(k, v). k \<noteq> ''Charity'' \<and> k \<noteq> ''Loan, interests'' \<and>
          k \<noteq> ''Lending, renting'') d)) =
     sum_list (map snd d)"
  by (induction d) auto

lemma simplified_spending_eq:
  "simplified_spending (calculate_metrics data) =
     categorize_spending (spending_by_category (calculate_metrics data))"
  by (simp add: calculate_metrics_def Let_def)

lemma total_spending_dict:
  "total_spending (calculate_metrics data) =
     sum_list (map snd (spending_by_category (calculate_metrics data)))"
  by (simp add: total_spending_eq spending_by_category_eq series_sum_def)

text \<open>
  Claim C5, amended. Every entry of the adjusted spending dict goes to exactly one
  bucket: \<open>charity\<close> sums the entries whose key is the charity category,
  \<open>lending\<close> those whose key is the loan or the lending category, \<open>normal\<close> all
  the others. When the sums are taken in exact arithmetic the three buckets add up to
  \<open>total_spending\<close>; in float64 the two are sums of the same values in different
  orders, and agree to floating-point tolerance only.
\<close>

theorem simplified_split:
  "let m = calculate_metrics data;
       d = spending_by_category m;
       s = simplified_spending m
   in charity s = sum_list (map snd (filter (\<lambda>(k, v). k = ''Charity'') d)) \<and>
      lending s = sum_list (map snd
        (filter (\<lambda>(k, v). k = ''Loan, interests'' \<or> k = ''Lending, renting'') d)) \<and>
      normal s = sum_list (map snd
        (filter (\<lambda>(k, v). k \<noteq> ''Charity'' \<and> k \<noteq> ''Loan, interests'' \<and>
           k \<noteq> ''Lending, renting'') d)) \<and>
      charity s + lending s + normal s = total_spending m"
proof -
  let ?d = "spending_by_category (calculate_metrics data)"
  have s: "simplified_spending (calculate_metrics data) =
      \<lparr>charity = sum_list (map snd (filter (\<lambda>(k, v). k = ''Charity'') ?d)),
       lending = sum_list (map snd
         (filter (\<lambda>(k, v). k = ''Loan, interests'' \<or> k = ''Lending, renting'') ?d)),
       normal = sum_list (map snd
         (filter (\<lambda>(k, v). k \<noteq> ''Charity'' \<and> k \<noteq> ''Loan, interests'' \<and>
            k \<noteq> ''Lending, renting'') ?d))\<rparr>"
    by (simp add: simplified_spending_eq categorize_spending_def categorize_loop_sums)
  show ?thesis
    unfolding Let_def s total_spending_dict
    using sum_list_three_way [of ?d] by simp
qed

section \<open>The charity percentage\<close>

lemma charity_percentage_eq:
  "charity_percentage (calculate_metrics data) =
     (if total_spending (calculate_metrics data) > 0
      then float_mul (float_div (charity_spending (calculate_metrics data))
             (total_spending (calculate_metrics data))) 100
      else Num 0)"
  by (simp add: calculate_metrics_def Let_def)

text \<open>
  Claim C7. When the adjusted total spending is 0 the charity percentage is the number
  0; when it is positive the percentage is the number
  \<open>charity_spending / total_spending * 100\<close>. In both cases it is a number: the
  division is only evaluated on a positive denominator, so it yields neither NaN nor
  an infinity.
\<close>

theorem charity_percentage_safe:
  "let m = calculate_metrics data
   in (total_spending m = 0 \<longrightarrow> charity_percentage m = Num 0) \<and>
      (total_spending m > 0 \<longrightarrow>
         charity_percentage m = Num (charity_spending m / total_spending m * 100))"
  unfolding Let_def charity_percentage_eq by (simp add: float_div_def)

section \<open>Spending-side figures are magnitudes\<close>








section \<open>Months and years\<close>

lemma analyze_by_period_eq:
  "analyze_by_period key rows =
     map (\<lambda>k. (k, calculate_metrics (filter (\<lambda>t. key t = k) rows)))
       (sort (remdups (map key rows)))"
  by (simp add: analyze_by_period_def groupby_def comp_def)

lemma map_of_analyze_by_period:
  "map_of (analyze_by_period key rows) k =
     (if k \<in> key ` set rows
      then Some (calculate_metrics (filter (\<lambda>t. key t = k) rows)) else None)"
  by (simp add: analyze_by_period_eq map_of_map_restrict restrict_map_def)

lemma sum_list_filter_if:
  fixes g :: "'a \<Rightarrow> real"
  shows "sum_list (map g (filter Q xs)) = sum_list (map (\<lambda>t. if Q t then g t else 0) xs)"
  by (induction xs) auto

lemma months_of_year:
  "filter (\<lambda>(k, m). fst k = y) (analyze_by_period month_col rows) =
     map (\<lambda>k. (k, calculate_metrics (filter (\<lambda>t. month_col t = k) rows)))
       (filter (\<lambda>k. fst k = y) (sort (remdups (map month_col rows))))"
  by (simp add: analyze_by_period_eq filter_map comp_def)

lemma total_income_if:
  "total_income (calculate_metrics rows) =
     sum_list (map (\<lambda>t. if is_income t \<and> category t \<noteq> ''Lending, renting''
                       then amount t else 0) rows)"
  unfolding total_income_rows by (rule sum_list_filter_if)

text \<open>
  Claim C8, amended. For a year that has a yearly record, the \<open>total_income\<close> of the
  per-month records of the months of that year add up to the \<open>total_income\<close> of the
  yearly record when the sums are taken in exact arithmetic: both are computed from the
  same rows, and the months of a year partition its rows. In float64 the two are sums
  of the same amounts in different orders, and agree to floating-point tolerance only.
\<close>

theorem monthly_income_adds_up:
  assumes "map_of (analyze_by_period year_col rows) y = Some yearly"
  shows "sum_list (map (\<lambda>(k, m). total_income m)
           (filter (\<lambda>(k, m). fst k = y) (analyze_by_period month_col rows))) =
         total_income yearly"
proof -
  let ?Q = "\<lambda>t. is_income t \<and> category t \<noteq> ''Lending, renting''"
  let ?g = "\<lambda>t. if ?Q t then amount t else 0"
  from assms have yearly: "yearly = calculate_metrics (filter (\<lambda>t. year_col t = y) rows)"
    by (simp add: map_of_analyze_by_period split: if_splits)
  have "sum_list (map (\<lambda>(k, m). total_income m)
           (filter (\<lambda>(k, m). fst k = y) (analyze_by_period month_col rows))) =
        sum_list (map (\<lambda>k. sum_list (map ?g (filter (\<lambda>t. month_col t = k) rows)))
           (filter (\<lambda>k. fst k = y) (sort (remdups (map month_col rows)))))"
    by (simp add: months_of_year comp_def total_income_if)
  also have "\<dots> = sum_list (map ?g (filter (\<lambda>t. fst (month_col t) = y) rows))"
    by (rule sum_list_groups)
  also have "\<dots> = total_income yearly"
    by (simp add: yearly total_income_if month_col_def year_col_def)
  finally show ?thesis .
qed

section \<open>The properties on the sample tables\<close>

text \<open>
  The engine evaluated on the sample tables, and each property that has a condition
  applied to a table that meets it.
\<close>

lemmas engine_defs =
  calculate_metrics_def Let_def groupby_category_sum_def groupby_def
  series_abs_def adjust_spending_def drop_label_def series_sum_def to_dict_def setitem_def
  mean_def categorize_spending_def base_currency_def is_expense_def is_income_def
  spending_categories_charity_def spending_categories_lending_def float_div_def mk_row_def

lemma scenario_a_spending:
  "spending_by_category (calculate_metrics scenario_a) = [(''Loan, interests'', 300)]"
  by (simp add: scenario_a_def engine_defs)

lemma scenario_b_spending: "spending_by_category (calculate_metrics scenario_b) = []"
  by (simp add: scenario_b_def engine_defs)


theorem loan_adjustment_witness:
  "(0::real) < 500 - 200 \<and>
   map_of (spending_by_category (calculate_metrics scenario_a)) ''Loan, interests'' =
     Some (500 - 200) \<and>
   (200 - 500 :: real) \<le> 0 \<and>
   ''Loan, interests'' \<notin> fst ` set (spending_by_category (calculate_metrics scenario_b)) \<and>
   map_of (spending_by_category (calculate_metrics scenario_c)) ''Food'' =
     map_of (spending_by_category_raw (raw_totals (calculate_metrics scenario_c))) ''Food'' \<and>
   map_of (spending_by_category_raw (raw_totals (calculate_metrics scenario_c))) ''Food'' =
     Some 400"
proof -
  have La: "sum_list (map (\<lambda>t. \<bar>amount t\<bar>)
      (filter (\<lambda>t. amount t < 0 \<and> category t = ''Loan, interests'') scenario_a)) = 500"
    by (simp add: scenario_a_def mk_row_def)
  have Ra: "sum_list (map amount
      (filter (\<lambda>t. amount t > 0 \<and> category t = ''Lending, renting'') scenario_a)) = 200"
    by (simp add: scenario_a_def mk_row_def)
  have Lb: "sum_list (map (\<lambda>t. \<bar>amount t\<bar>)
      (filter (\<lambda>t. amount t < 0 \<and> category t = ''Loan, interests'') scenario_b)) = 200"
    by (simp add: scenario_b_def mk_row_def)
  have Rb: "sum_list (map amount
      (filter (\<lambda>t. amount t > 0 \<and> category t = ''Lending, renting'') scenario_b)) = 500"
    by (simp add: scenario_b_def mk_row_def)
  have Fc: "sum_list (map (\<lambda>t. \<bar>amount t\<bar>)
      (filter (\<lambda>t. amount t < 0 \<and> category t = ''Food'') scenario_c)) = 400"
    by (simp add: scenario_c_def mk_row_def)
  have Kc: "''Food'' \<in> category ` {t \<in> set scenario_c. amount t < 0}"
    by (rule image_eqI [where x = "mk_row 2025 1 7 ''Food'' (- 400)"])
      (simp_all add: scenario_c_def mk_row_def)
  have a: "map_of (spending_by_category (calculate_metrics scenario_a)) ''Loan, interests'' =
      Some (500 - 200)"
    using loan_adjustment [of scenario_a] unfolding Let_def La Ra by simp
  have b: "''Loan, interests'' \<notin> fst ` set (spending_by_category (calculate_metrics scenario_b))"
    using loan_adjustment [of scenario_b] unfolding Let_def Lb Rb by simp
  have c: "map_of (spending_by_category (calculate_metrics scenario_c)) ''Food'' =
      map_of (spending_by_category_raw (raw_totals (calculate_metrics scenario_c))) ''Food'' \<and>
    map_of (spending_by_category_raw (raw_totals (calculate_metrics scenario_c))) ''Food'' =
      Some 400"
    using loan_adjustment [of scenario_c, unfolded Let_def, THEN conjunct2, THEN conjunct2,
        THEN conjunct2, THEN spec [of _ "''Food''"]] Kc Fc
    by simp
  from a b c show ?thesis by simp
qed

lemma scenario_b_total: "total_spending (calculate_metrics scenario_b) = 0"
  by (simp add: scenario_b_def engine_defs)

lemma scenario_c_total:
  "total_spending (calculate_metrics scenario_c) = 500 \<and>
   charity_spending (calculate_metrics scenario_c) = 100"
  by (simp add: scenario_c_def engine_defs)

theorem charity_percentage_safe_witness:
  "total_spending (calculate_metrics scenario_b) = 0 \<and>
   charity_percentage (calculate_metrics scenario_b) = Num 0 \<and>
   0 < total_spending (calculate_metrics scenario_c) \<and>
   charity_percentage (calculate_metrics scenario_c) = Num 20"
proof -
  have b: "charity_percentage (calculate_metrics scenario_b) = Num 0"
    using charity_percentage_safe [of scenario_b] scenario_b_total
    unfolding Let_def by simp
  have c: "charity_percentage (calculate_metrics scenario_c) = Num 20"
    using charity_percentage_safe [of scenario_c] scenario_c_total
    unfolding Let_def by simp
  from b c scenario_b_total scenario_c_total show ?thesis by simp
qed


lemma scenario_d_months:
  "map (\<lambda>(k, m). (k, total_income m))
     (filter (\<lambda>(k, m). fst k = 2025) (analyze_by_period month_col scenario_d)) =
   [((2025, 1), 1000), ((2025, 2), 300)]"
  by (simp add: months_of_year total_income_rows scenario_d_def mk_row_def month_col_def
      is_income_def)

theorem monthly_income_adds_up_witness:
  "map_of (analyze_by_period year_col scenario_d) 2025 =
     Some (calculate_metrics (filter (\<lambda>t. year_col t = 2025) scenario_d)) \<and>
   sum_list (map (\<lambda>(k, m). total_income m)
     (filter (\<lambda>(k, m). fst k = 2025) (analyze_by_period month_col scenario_d))) = 1300 \<and>
   total_income (calculate_metrics (filter (\<lambda>t. year_col t = 2025) scenario_d)) = 1300"
proof -
  have h: "map_of (analyze_by_period year_col scenario_d) 2025 =
      Some (calculate_metrics (filter (\<lambda>t. year_col t = 2025) scenario_d))"
    by (simp add: map_of_analyze_by_period scenario_d_def mk_row_def year_col_def)
  have t: "total_income (calculate_metrics (filter (\<lambda>t. year_col t = 2025) scenario_d)) = 1300"
    by (simp add: total_income_rows scenario_d_def mk_row_def year_col_def is_income_def)
  from monthly_income_adds_up [OF h] t h show ?thesis by simp
qed

section \<open>Field equations in the arithmetic of the column\<close>

lemma bit_length_numeral:
  "bit_length (numeral n) = Suc (bit_length (numeral n div 2))"
  by (subst bit_length.simps) simp

lemma bit_length_small: "bit_length 0 = 0" "bit_length 1 = 1" "bit_length (Suc 0) = 1"
  by (simp_all add: bit_length.simps)

lemmas f64_eval = f64_def ulp_def exponent_def round_half_even_def Let_def
  bit_length_numeral bit_length_small pow2_def

lemma groupby_category_sum_in_eq:
  "groupby_category_sum_in dt rows =
     map (\<lambda>c. (c, sum_in dt (map amount (filter (\<lambda>t. category t = c) rows))))
       (sort (remdups (map category rows)))"
  by (simp add: groupby_category_sum_in_def groupby_def comp_def)

lemma fst_series_abs_in: "map fst (series_abs_in dt s) = map fst s"
  by (induction s) (auto simp: series_abs_in_def)

lemma distinct_spending_raw_in:
  "distinct (map fst (series_abs_in dt (groupby_category_sum_in dt rows)))"
  by (simp add: fst_series_abs_in groupby_category_sum_in_eq comp_def)

lemma distinct_groupby_category_sum_in: "distinct (map fst (groupby_category_sum_in dt rows))"
  by (simp add: groupby_category_sum_in_eq comp_def)

lemma total_lending_in_eq:
  "total_lending_in (calculate_metrics_in dt data) =
     abs_in dt (sum_in dt
       (map amount (filter (\<lambda>t. category t = ''Loan, interests'') (filter is_expense data))))"
  by (simp add: calculate_metrics_in_def Let_def)

lemma repaid_lending_in_eq:
  "repaid_lending_in (calculate_metrics_in dt data) =
     sum_in dt
       (map amount (filter (\<lambda>t. category t = ''Lending, renting'') (filter is_income data)))"
  by (simp add: calculate_metrics_in_def Let_def)

lemma charity_spending_in_eq:
  "charity_spending_in (calculate_metrics_in dt data) =
     abs_in dt (sum_in dt
       (map amount (filter (\<lambda>t. category t = ''Charity'') (filter is_expense data))))"
  by (simp add: calculate_metrics_in_def Let_def)

lemma spending_by_category_in_eq:
  "spending_by_category_in (calculate_metrics_in dt data) =
     adjust_spending
       (sub_in dt (total_lending_in (calculate_metrics_in dt data))
          (repaid_lending_in (calculate_metrics_in dt data)))
       (series_abs_in dt (groupby_category_sum_in dt (filter is_expense data)))"
  by (simp add: calculate_metrics_in_def Let_def to_dict_distinct distinct_adjust_spending
      distinct_spending_raw_in)

lemma total_spending_in_eq:
  "total_spending_in (calculate_metrics_in dt data) =
     series_sum_in dt (spending_by_category_in (calculate_metrics_in dt data))"
  by (simp add: calculate_metrics_in_def Let_def to_dict_distinct distinct_adjust_spending
      distinct_spending_raw_in)

lemma simplified_spending_in_eq:
  "simplified_spending_in (calculate_metrics_in dt data) =
     categorize_spending_in dt (spending_by_category_in (calculate_metrics_in dt data))"
  by (simp add: calculate_metrics_in_def Let_def)

lemma total_income_in_eq:
  "total_income_in (calculate_metrics_in dt data) =
     series_sum_in dt
       (drop_label ''Lending, renting'' (groupby_category_sum_in dt (filter is_income data)))"
  by (simp add: calculate_metrics_in_def Let_def)

lemma outstanding_lending_in_eq:
  "outstanding_lending_in (calculate_metrics_in dt data) =
     max 0 (sub_in dt (total_lending_in (calculate_metrics_in dt data))
       (repaid_lending_in (calculate_metrics_in dt data)))"
  by (simp add: calculate_metrics_in_def Let_def)

lemma excess_repayment_in_eq:
  "excess_repayment_in (calculate_metrics_in dt data) =
     max 0 (neg_in dt (sub_in dt (total_lending_in (calculate_metrics_in dt data))
       (repaid_lending_in (calculate_metrics_in dt data))))"
  by (simp add: calculate_metrics_in_def Let_def)

section \<open>The float64 and int64 tables\<close>

subsection \<open>Three expense rows in float64\<close>

lemma float_split_rows:
  "float_split =
     [mk_row 2025 1 5 ''Charity'' (- (3602879701896397 / 36028797018963968)),
      mk_row 2025 1 7 ''Food'' (- (3602879701896397 / 18014398509481984)),
      mk_row 2025 1 9 ''Zoo'' (- (5404319552844595 / 18014398509481984))]"
  by (simp add: float_split_def f64_eval)

lemma float_split_raw:
  "series_abs_in Float64 (groupby_category_sum_in Float64 (filter is_expense float_split)) =
     [(''Charity'', 3602879701896397 / 36028797018963968),
      (''Food'', 3602879701896397 / 18014398509481984),
      (''Zoo'', 5404319552844595 / 18014398509481984)]"
  by (simp add: float_split_rows groupby_category_sum_in_eq series_abs_in_def is_expense_def
      mk_row_def sum_in_def add_in_def abs_in_def rnd_def f64_eval)

lemma float_split_lending:
  "total_lending_in (calculate_metrics_in Float64 float_split) = 0"
  "repaid_lending_in (calculate_metrics_in Float64 float_split) = 0"
  by (simp_all add: total_lending_in_eq repaid_lending_in_eq float_split_rows is_expense_def
      is_income_def mk_row_def sum_in_def abs_in_def rnd_def f64_def)

lemma float_split_spending:
  "spending_by_category_in (calculate_metrics_in Float64 float_split) =
     [(''Charity'', 3602879701896397 / 36028797018963968),
      (''Food'', 3602879701896397 / 18014398509481984),
      (''Zoo'', 5404319552844595 / 18014398509481984)]"
  by (simp add: spending_by_category_in_eq float_split_lending float_split_raw sub_in_def
      rnd_def f64_def adjust_spending_def drop_label_def)

lemma float_split_total:
  "total_spending_in (calculate_metrics_in Float64 float_split) =
     1351079888211149 / 2251799813685248"
  by (simp add: total_spending_in_eq float_split_spending series_sum_in_def sum_in_def
      add_in_def rnd_def f64_eval)

lemma float_split_simplified:
  "simplified_spending_in (calculate_metrics_in Float64 float_split) =
     \<lparr>charity = 3602879701896397 / 36028797018963968, lending = 0, normal = 1 / 2\<rparr>"
  by (simp add: simplified_spending_in_eq float_split_spending categorize_spending_in_def
      spending_categories_charity_def spending_categories_lending_def py_add_def f64_eval)

lemma float_split_py_sum:
  "py_sum Float64 [3602879701896397 / 36028797018963968, 0, 1 / 2] =
     5404319552844595 / 9007199254740992"
  by (simp add: py_sum_def py_add_def f64_eval)

text \<open>
  Claim C5, as stated, on the float64 column of the expenses 0.1 (Charity), 0.2 (Food)
  and 0.3 (Zoo): the buckets are 0.1, 0 and 0.2 + 0.3 = 0.5 and add up to 0.6, while
  \<open>total_spending\<close> is (0.1 + 0.2) + 0.3 = 0.6000000000000001. The two sums differ.
\<close>

theorem simplified_split_float_counterexample:
  "py_sum Float64
     [charity (simplified_spending_in (calculate_metrics_in Float64 float_split)),
      lending (simplified_spending_in (calculate_metrics_in Float64 float_split)),
      normal (simplified_spending_in (calculate_metrics_in Float64 float_split))] =
     5404319552844595 / 9007199254740992 \<and>
   total_spending_in (calculate_metrics_in Float64 float_split) =
     1351079888211149 / 2251799813685248 \<and>
   py_sum Float64
     [charity (simplified_spending_in (calculate_metrics_in Float64 float_split)),
      lending (simplified_spending_in (calculate_metrics_in Float64 float_split)),
      normal (simplified_spending_in (calculate_metrics_in Float64 float_split))] \<noteq>
     total_spending_in (calculate_metrics_in Float64 float_split)"
  by (simp add: float_split_simplified float_split_total float_split_py_sum)

subsection \<open>Two months of income in float64\<close>

lemma float_february_rows:
  "float_february =
     [mk_row 2025 2 3 ''Bonus'' (3602879701896397 / 18014398509481984),
      mk_row 2025 2 20 ''Salary'' (5404319552844595 / 18014398509481984)]"
  by (simp add: float_february_def f64_eval)

lemma float_march_rows:
  "float_march = [mk_row 2025 3 7 ''Allowance'' (3602879701896397 / 36028797018963968)]"
  by (simp add: float_march_def f64_eval)

lemma float_months_groups:
  "groupby month_col float_months = [((2025, 2), float_february), ((2025, 3), float_march)]"
  by (simp add: float_months_def float_february_rows float_march_rows groupby_def
      month_col_def mk_row_def)

lemma float_years_groups: "groupby year_col float_months = [(2025, float_months)]"
  by (simp add: float_months_def float_february_rows float_march_rows groupby_def
      year_col_def mk_row_def)

lemma float_february_income:
  "total_income_in (calculate_metrics_in Float64 float_february) = 1 / 2"
  by (simp add: float_february_rows total_income_in_eq groupby_category_sum_in_eq
      is_income_def mk_row_def drop_label_def series_sum_in_def sum_in_def add_in_def
      rnd_def f64_eval)

lemma float_march_income:
  "total_income_in (calculate_metrics_in Float64 float_march) =
     3602879701896397 / 36028797018963968"
  by (simp add: float_march_rows total_income_in_eq groupby_category_sum_in_eq
      is_income_def mk_row_def drop_label_def series_sum_in_def sum_in_def add_in_def
      rnd_def f64_eval)

lemma float_year_income:
  "total_income_in (calculate_metrics_in Float64 float_months) =
     1351079888211149 / 2251799813685248"
  by (simp add: float_months_def float_february_rows float_march_rows total_income_in_eq
      groupby_category_sum_in_eq is_income_def mk_row_def drop_label_def series_sum_in_def
      sum_in_def add_in_def rnd_def f64_eval)

lemma float_months_py_sum:
  "py_sum Float64 [1 / 2, 3602879701896397 / 36028797018963968] =
     5404319552844595 / 9007199254740992"
  by (simp add: py_sum_def py_add_def f64_eval)

text \<open>
  Claim C8, as stated, on the float64 column of the incomes 0.2 (Bonus) and 0.3 (Salary)
  in February 2025 and 0.1 (Allowance) in March 2025: the months have the totals
  0.2 + 0.3 = 0.5 and 0.1, which add up to 0.6, while the year has the total
  (0.1 + 0.2) + 0.3 = 0.6000000000000001.
\<close>

theorem monthly_income_float_counterexample:
  "analyze_by_period_in Float64 month_col float_months =
     [((2025, 2), calculate_metrics_in Float64 float_february),
      ((2025, 3), calculate_metrics_in Float64 float_march)] \<and>
   analyze_by_period_in Float64 year_col float_months =
     [(2025, calculate_metrics_in Float64 float_months)] \<and>
   py_sum Float64
     [total_income_in (calculate_metrics_in Float64 float_february),
      total_income_in (calculate_metrics_in Float64 float_march)] =
     5404319552844595 / 9007199254740992 \<and>
   total_income_in (calculate_metrics_in Float64 float_months) =
     1351079888211149 / 2251799813685248 \<and>
   py_sum Float64
     [total_income_in (calculate_metrics_in Float64 float_february),
      total_income_in (calculate_metrics_in Float64 float_march)] \<noteq>
     total_income_in (calculate_metrics_in Float64 float_months)"
  by (simp add: analyze_by_period_in_def float_months_groups float_years_groups
      float_february_income float_march_income float_year_income float_months_py_sum)

subsection \<open>Two expense rows in int64\<close>

lemma int_overflow_raw:
  "series_abs_in Int64 (groupby_category_sum_in Int64 (filter is_expense int_overflow)) =
     [(''Food'', - (2 ^ 63))]"
  by (simp add: int_overflow_def groupby_category_sum_in_eq series_abs_in_def is_expense_def
      mk_row_def sum_in_def add_in_def abs_in_def rnd_def wrap64_def)

lemma int_overflow_lending:
  "total_lending_in (calculate_metrics_in Int64 int_overflow) = 0"
  "repaid_lending_in (calculate_metrics_in Int64 int_overflow) = 0"
  by (simp_all add: total_lending_in_eq repaid_lending_in_eq int_overflow_def is_expense_def
      is_income_def mk_row_def sum_in_def abs_in_def rnd_def wrap64_def)

lemma int_overflow_spending:
  "spending_by_category_in (calculate_metrics_in Int64 int_overflow) = [(''Food'', - (2 ^ 63))]"
  by (simp add: spending_by_category_in_eq int_overflow_lending int_overflow_raw sub_in_def
      rnd_def wrap64_def adjust_spending_def drop_label_def)

lemma int_overflow_total:
  "total_spending_in (calculate_metrics_in Int64 int_overflow) = - (2 ^ 63)"
  by (simp add: total_spending_in_eq int_overflow_spending series_sum_in_def sum_in_def
      add_in_def rnd_def wrap64_def)

text \<open>
  Claim C10, as stated, on the int64 column of two Food expenses of \<open>-2^62\<close>: their sum
  is \<open>-2^63\<close>, whose absolute value wraps around to \<open>-2^63\<close>, so the Food entry of
  \<open>spending_by_category\<close> and \<open>total_spending\<close> are negative.
\<close>

theorem spending_int64_counterexample:
  "spending_by_category_in (calculate_metrics_in Int64 int_overflow) = [(''Food'', - (2 ^ 63))] \<and>
   total_spending_in (calculate_metrics_in Int64 int_overflow) = - (2 ^ 63) \<and>
   \<not> 0 \<le> total_spending_in (calculate_metrics_in Int64 int_overflow)"
  by (simp add: int_overflow_spending int_overflow_total)

end
